theory Spec2Isabelle
  imports Main "HOL-Library.Char_ord" "HOL-Library.List_Lexorder"
begin

section \<open>Errors and outcomes\<close>

text \<open>
  The error values a call can return. \<open>ErrNegativeID\<close> is declared in igdb.go. The
  sentinels \<open>ErrOutOfRange\<close>, \<open>ErrEmptyIDs\<close>, \<open>ErrNoResults\<close> and \<open>ErrInvalidJSON\<close> are
  the ones pulse\_test.go compares against; none of them is raised by igdb.go, game.go or
  the endpoint file. The remaining constructors are the errors that \<open>get\<close> passes on
  unchanged from the standard library: http.NewRequest, http.Client.Do, the status check,
  ioutil.ReadAll and json.Unmarshal.
\<close>

datatype error =
    ErrNegativeID
  | ErrOutOfRange
  | ErrEmptyIDs
  | ErrNoResults
  | ErrInvalidJSON
  | RequestError
  | TransportError
  | StatusError int
  | ReadError
  | UnmarshalError

text \<open>
  A Go function either returns or panics. Only the index expression \<open>g[0]\<close> of the
  single-entity accessors can panic here (index out of range).
\<close>

datatype 'a outcome = Returns 'a | Panics

section \<open>Strings: strconv.Itoa, strings.Join, strings.Replace\<close>

text \<open>
  Go strings are byte sequences; every character produced or tested below is ASCII.
  Ids are Go \<open>int\<close>s; no arithmetic is done on them, so they are modelled as integers.
\<close>

definition digit_char :: "nat \<Rightarrow> char" where
  "digit_char d = ''0123456789'' ! d"

fun dec_nat :: "nat \<Rightarrow> string" where
  "dec_nat n = (if n < 10 then [digit_char n] else dec_nat (n div 10) @ [digit_char (n mod 10)])"

declare dec_nat.simps [simp del]

definition Itoa :: "int \<Rightarrow> string" where
  "Itoa i = (if i < 0 then CHR ''-'' # dec_nat (nat (- i)) else dec_nat (nat i))"

fun Join :: "string list \<Rightarrow> string \<Rightarrow> string" where
  "Join [] sep = []"
| "Join [s] sep = s"
| "Join (s # t # ss) sep = s @ sep @ Join (t # ss) sep"

text \<open>\<open>strings.Replace(url, " ", "", -1)\<close>: every space byte is deleted.\<close>

definition remove_spaces :: "string \<Rightarrow> string" where
  "remove_spaces s = filter (\<lambda>c. c \<noteq> CHR '' '') s"

text \<open>Reading a decimal numeral back, used to state what "decimal representation" means.\<close>

definition digit_val :: "char \<Rightarrow> nat" where
  "digit_val c = of_char c - 48"

definition is_digit :: "char \<Rightarrow> bool" where
  "is_digit c = (48 \<le> (of_char c :: nat) \<and> (of_char c :: nat) \<le> 57)"

definition dec_value :: "string \<Rightarrow> nat" where
  "dec_value s = foldl (\<lambda>acc c. 10 * acc + digit_val c) 0 s"

text \<open>Cutting a string at a separator byte, as \<open>strings.Split\<close> does.\<close>

fun split_on :: "char \<Rightarrow> string \<Rightarrow> string list" where
  "split_on sep [] = [[]]"
| "split_on sep (x # xs) =
     (if x = sep then [] # split_on sep xs
      else (case split_on sep xs of [] \<Rightarrow> [[x]] | y # ys \<Rightarrow> (x # y) # ys))"

section \<open>JSON values and decoding destinations\<close>

text \<open>
  \<open>json.Unmarshal\<close> belongs to the standard library. Its parser (bytes to a JSON value)
  is a parameter of the model; what it does with a parsed value depends on the
  destination, and the destinations the accessors use are slices and strings.
  A JSON \<open>null\<close> leaves a destination at its zero value without an error.
\<close>

datatype json =
    JNull
  | JBool bool
  | JNumber int
  | JString string
  | JArray "json list"
  | JObject "(string \<times> json) list"

fun dec_slice :: "(json \<Rightarrow> 'a option) \<Rightarrow> json \<Rightarrow> 'a list option" where
  "dec_slice d (JArray xs) = those (map d xs)"
| "dec_slice d JNull = Some []"
| "dec_slice d _ = None"

fun dec_string :: "json \<Rightarrow> string option" where
  "dec_string (JString s) = Some s"
| "dec_string JNull = Some []"
| "dec_string _ = None"

definition Unmarshal :: "(string \<Rightarrow> json option) \<Rightarrow> (json \<Rightarrow> 'a option) \<Rightarrow> string \<Rightarrow> error + 'a" where
  "Unmarshal parse dest b =
     (case parse b of
        None \<Rightarrow> Inl UnmarshalError
      | Some j \<Rightarrow> (case dest j of None \<Rightarrow> Inl UnmarshalError | Some v \<Rightarrow> Inr v))"

section \<open>Client, requests and what the code takes from outside\<close>

record request =
  req_method :: string
  req_url :: string
  req_headers :: "(string \<times> string) list"

text \<open>\<open>resp_body\<close> is what \<open>ioutil.ReadAll(resp.Body)\<close> yields: the bytes or a read error.\<close>

record response =
  resp_status :: int
  resp_body :: "error + string"

text \<open>
  \<open>Client\<close> wraps an http client and the root URL. The http client is modelled by what
  its \<open>Do\<close> method answers to a request.
\<close>

record Client =
  http :: "request \<Rightarrow> error + response"
  rootURL :: string

type_synonym endpoint = string

definition igdbURL :: string where
  "igdbURL = ''https://api-2445582011268.apicast.io/''"

definition NewClient :: "(request \<Rightarrow> error + response) \<Rightarrow> Client" where
  "NewClient DefaultClient = \<lparr>http = DefaultClient, rootURL = igdbURL\<rparr>"

definition GameEndpoint :: endpoint where
  "GameEndpoint = ''games/''"

definition FeedEndpoint :: endpoint where
  "FeedEndpoint = ''feeds/''"

definition PulseEndpoint :: endpoint where
  "PulseEndpoint = ''pulses/''"

text \<open>
  The \<open>Encoder\<close> interface has one method, \<open>Encode() string\<close>; an encoder is
  characterised by the string that method returns.
\<close>

datatype Encoder = Encoder (Encode: string)

text \<open>
  What the source files use but do not contain, together with the standard-library
  behaviour they rely on:
  \<^item> the option layer: \<open>newOpt\<close> finalizes a list of options into an error or an option
    set, \<open>Values\<close> is the encoder held by a finalized option set (\<open>opt.Values\<close>),
    \<open>optSearch\<close> makes the search option;
  \<^item> the constant \<open>APIkey\<close> and the method \<open>checkError\<close>;
  \<^item> whether \<open>http.NewRequest\<close> rejects a URL, and the JSON parser.
\<close>

record ('o, 'v) deps =
  newOpt :: "'o list \<Rightarrow> error + 'v"
  Values :: "'v \<Rightarrow> Encoder"
  optSearch :: "string \<Rightarrow> 'o"
  APIkey :: string
  checkError :: "response \<Rightarrow> error option"
  NewRequest_fails :: "string \<Rightarrow> bool"
  json_parse :: "string \<Rightarrow> json option"

text \<open>The network as the code sees it: the requests handed to \<open>Do\<close> so far, oldest first.\<close>

type_synonym net = "request list"

section \<open>The URL builder (igdb.go)\<close>

definition encodeURL :: "Encoder \<Rightarrow> string \<Rightarrow> string" where
  "encodeURL enc u =
     (let u1 = remove_spaces u;
          values = Encode enc
      in if values \<noteq> [] then u1 @ ''?'' @ values else u1)"

text \<open>\<open>intsToStrings\<close>: the loop appends one numeral per id to the slice \<open>str\<close>.\<close>

fun intsToStrings_loop :: "string list \<Rightarrow> int list \<Rightarrow> string list" where
  "intsToStrings_loop str [] = str"
| "intsToStrings_loop str (i # ints) = intsToStrings_loop (str @ [Itoa i]) ints"

definition intsToStrings :: "int list \<Rightarrow> string list" where
  "intsToStrings ints = intsToStrings_loop [] ints"

definition intsToCommaString :: "int list \<Rightarrow> string" where
  "intsToCommaString ints = Join (intsToStrings ints) '',''"

definition singleURL ::
  "('o, 'v) deps \<Rightarrow> Client \<Rightarrow> endpoint \<Rightarrow> int \<Rightarrow> 'o list \<Rightarrow> error + string" where
  "singleURL E c end' ident opts =
     (if ident < 0 then Inl ErrNegativeID
      else case newOpt E opts of
             Inl err \<Rightarrow> Inl err
           | Inr opt \<Rightarrow> Inr (encodeURL (Values E opt) (rootURL c @ end' @ Itoa ident)))"

text \<open>The range loop of \<open>multiURL\<close>: the first negative id aborts.\<close>

fun check_ids :: "int list \<Rightarrow> error option" where
  "check_ids [] = None"
| "check_ids (i # ids) = (if i < 0 then Some ErrNegativeID else check_ids ids)"

definition multiURL ::
  "('o, 'v) deps \<Rightarrow> Client \<Rightarrow> endpoint \<Rightarrow> int list \<Rightarrow> 'o list \<Rightarrow> error + string" where
  "multiURL E c end' ids opts =
     (case check_ids ids of
        Some err \<Rightarrow> Inl err
      | None \<Rightarrow>
          (case newOpt E opts of
             Inl err \<Rightarrow> Inl err
           | Inr opt \<Rightarrow> Inr (encodeURL (Values E opt) (rootURL c @ end' @ intsToCommaString ids))))"

definition searchURL ::
  "('o, 'v) deps \<Rightarrow> Client \<Rightarrow> endpoint \<Rightarrow> string \<Rightarrow> 'o list \<Rightarrow> error + string" where
  "searchURL E c end' qry opts =
     (case newOpt E (opts @ [optSearch E qry]) of
        Inl err \<Rightarrow> Inl err
      | Inr opt \<Rightarrow> Inr (encodeURL (Values E opt) (rootURL c @ end')))"

section \<open>Transport (igdb.go)\<close>

text \<open>
  \<open>get\<close> in two steps. \<open>fetch\<close> is its first part: build the request with its two
  headers (\<open>new_request\<close>), hand it to the http client, check the response, read the body. Every early
  return of the source is a branch. A request handed to \<open>Do\<close> is recorded, whatever the
  answer. \<open>get\<close> then unmarshals the body into the destination.
\<close>

definition new_request :: "('o, 'v) deps \<Rightarrow> string \<Rightarrow> request" where
  "new_request E u =
     \<lparr>req_method = ''GET'', req_url = u,
      req_headers = [(''User-Key'', APIkey E), (''Accept'', ''application/json'')]\<rparr>"

definition fetch :: "('o, 'v) deps \<Rightarrow> Client \<Rightarrow> string \<Rightarrow> net \<Rightarrow> (error + string) \<times> net" where
  "fetch E c u w =
     (if NewRequest_fails E u then (Inl RequestError, w)
      else
        let req = new_request E u;
            w' = w @ [req]
        in case http c req of
             Inl err \<Rightarrow> (Inl err, w')
           | Inr resp \<Rightarrow>
               (case checkError E resp of
                  Some err \<Rightarrow> (Inl err, w')
                | None \<Rightarrow>
                    (case resp_body resp of
                       Inl err \<Rightarrow> (Inl err, w')
                     | Inr b \<Rightarrow> (Inr b, w'))))"

definition get ::
  "('o, 'v) deps \<Rightarrow> Client \<Rightarrow> (json \<Rightarrow> 'a option) \<Rightarrow> string \<Rightarrow> net \<Rightarrow> (error + 'a) \<times> net" where
  "get E c dest u w =
     (case fetch E c u w of
        (Inl err, w') \<Rightarrow> (Inl err, w')
      | (Inr b, w') \<Rightarrow>
          (case Unmarshal (json_parse E) dest b of
             Inl err \<Rightarrow> (Inl err, w')
           | Inr v \<Rightarrow> (Inr v, w')))"

section \<open>Accessors (game.go, the feed file and the endpoint file)\<close>

text \<open>
  The field-by-field decoding of a \<open>Game\<close> is done by reflection in the standard library;
  the accessors take the decoder of one array element as the parameter \<open>dec\<close>.
  \<open>GetGame\<close> ends with \<open>return &g[0], nil\<close>: on a slice of length 0 that index
  expression panics.
\<close>

definition GetGame ::
  "('o, 'v) deps \<Rightarrow> Client \<Rightarrow> (json \<Rightarrow> 'g option) \<Rightarrow> int \<Rightarrow> 'o list \<Rightarrow> net
     \<Rightarrow> (error + 'g) outcome \<times> net" where
  "GetGame E c dec ident opts w =
     (case singleURL E c GameEndpoint ident opts of
        Inl err \<Rightarrow> (Returns (Inl err), w)
      | Inr u \<Rightarrow>
          (case get E c (dec_slice dec) u w of
             (Inl err, w') \<Rightarrow> (Returns (Inl err), w')
           | (Inr g, w') \<Rightarrow>
               (case g of
                  [] \<Rightarrow> (Panics, w')
                | g0 # _ \<Rightarrow> (Returns (Inr g0), w'))))"

definition GetGames ::
  "('o, 'v) deps \<Rightarrow> Client \<Rightarrow> (json \<Rightarrow> 'g option) \<Rightarrow> int list \<Rightarrow> 'o list \<Rightarrow> net
     \<Rightarrow> (error + 'g list) \<times> net" where
  "GetGames E c dec ids opts w =
     (case multiURL E c GameEndpoint ids opts of
        Inl err \<Rightarrow> (Inl err, w)
      | Inr u \<Rightarrow>
          (case get E c (dec_slice dec) u w of
             (Inl err, w') \<Rightarrow> (Inl err, w')
           | (Inr g, w') \<Rightarrow> (Inr g, w')))"

definition SearchGames ::
  "('o, 'v) deps \<Rightarrow> Client \<Rightarrow> (json \<Rightarrow> 'g option) \<Rightarrow> string \<Rightarrow> 'o list \<Rightarrow> net
     \<Rightarrow> (error + 'g list) \<times> net" where
  "SearchGames E c dec qry opts w =
     (case searchURL E c GameEndpoint qry opts of
        Inl err \<Rightarrow> (Inl err, w)
      | Inr u \<Rightarrow>
          (case get E c (dec_slice dec) u w of
             (Inl err, w') \<Rightarrow> (Inl err, w')
           | (Inr g, w') \<Rightarrow> (Inr g, w')))"

text \<open>The feed accessors have the shape of the game accessors, on \<open>FeedEndpoint\<close>.\<close>

definition GetFeed ::
  "('o, 'v) deps \<Rightarrow> Client \<Rightarrow> (json \<Rightarrow> 'f option) \<Rightarrow> int \<Rightarrow> 'o list \<Rightarrow> net
     \<Rightarrow> (error + 'f) outcome \<times> net" where
  "GetFeed E c dec ident opts w =
     (case singleURL E c FeedEndpoint ident opts of
        Inl err \<Rightarrow> (Returns (Inl err), w)
      | Inr u \<Rightarrow>
          (case get E c (dec_slice dec) u w of
             (Inl err, w') \<Rightarrow> (Returns (Inl err), w')
           | (Inr f, w') \<Rightarrow>
               (case f of
                  [] \<Rightarrow> (Panics, w')
                | f0 # _ \<Rightarrow> (Returns (Inr f0), w'))))"

definition GetFeeds ::
  "('o, 'v) deps \<Rightarrow> Client \<Rightarrow> (json \<Rightarrow> 'f option) \<Rightarrow> int list \<Rightarrow> 'o list \<Rightarrow> net
     \<Rightarrow> (error + 'f list) \<times> net" where
  "GetFeeds E c dec ids opts w =
     (case multiURL E c FeedEndpoint ids opts of
        Inl err \<Rightarrow> (Inl err, w)
      | Inr u \<Rightarrow>
          (case get E c (dec_slice dec) u w of
             (Inl err, w') \<Rightarrow> (Inl err, w')
           | (Inr f, w') \<Rightarrow> (Inr f, w')))"

definition GetEndpointModel ::
  "('o, 'v) deps \<Rightarrow> Client \<Rightarrow> endpoint \<Rightarrow> net \<Rightarrow> (error + string list) \<times> net" where
  "GetEndpointModel E c end' w =
     (let u = rootURL c @ end' @ ''meta''
      in case get E c (dec_slice dec_string) u w of
           (Inl err, w') \<Rightarrow> (Inl err, w')
         | (Inr f, w') \<Rightarrow> (Inr f, w'))"

section \<open>The option model and the Count accessor\<close>

text \<open>
  Modelled from the spec: the closed set of filter operators. The option layer
  (\<open>OptionFunc\<close>, \<open>newOpt\<close>) is used by the source files but is not among them.
\<close>

datatype operator =
    OpEquals | OpNotEquals | OpGreaterThan | OpGreaterThanEqual
  | OpLessThan | OpLessThanEqual | OpPrefix

text \<open>Modelled from the spec: the sort direction, which the option layer would declare.\<close>

datatype direction = Ascending | Descending

text \<open>
  Modelled from the spec: the six option directives (the \<open>OptionFunc\<close> values of the
  source, whose constructors are not among the source files).
\<close>

datatype Option =
    SetFields "string list"
  | SetFilter string operator string
  | SetOrder string direction
  | SetLimit int
  | SetOffset int
  | SetSearch string

text \<open>
  Modelled from the spec: the accumulated option set (the \<open>options\<close> value that \<open>newOpt\<close>
  returns; its declaration is not among the source files). Fields and filters accumulate;
  sort key, limit, offset and search term hold the last value written.
\<close>

record OptionSet =
  os_fields :: "string list"
  os_filters :: "(string \<times> operator \<times> string) list"
  os_order :: "(string \<times> direction) option"
  os_limit :: "int option"
  os_offset :: "int option"
  os_search :: "string option"

text \<open>
  Modelled from the spec: the base configuration to which the directives are applied (the
  initial \<open>options\<close> value, not among the source files).
\<close>

definition empty_OptionSet :: OptionSet where
  "empty_OptionSet =
     \<lparr>os_fields = [], os_filters = [], os_order = None,
      os_limit = None, os_offset = None, os_search = None\<rparr>"

text \<open>
  Modelled from the spec: adding field names (part of the missing option layer) keeps the
  first occurrence of each name in insertion order, and the sentinel \<open>*\<close> suppresses
  every other entry.
\<close>

definition add_fields :: "string list \<Rightarrow> string list \<Rightarrow> string list" where
  "add_fields fs names =
     (let all = foldl (\<lambda>acc n. if n \<in> set acc then acc else acc @ [n]) fs names
      in if ''*'' \<in> set all then [''*''] else all)"

text \<open>
  Modelled from the spec: one directive applied to the option set under construction
  (what calling one \<open>OptionFunc\<close> of the missing option layer does).
\<close>

fun apply_Option :: "OptionSet \<Rightarrow> Option \<Rightarrow> OptionSet" where
  "apply_Option s (SetFields names) = s\<lparr>os_fields := add_fields (os_fields s) names\<rparr>"
| "apply_Option s (SetFilter f ope v) = s\<lparr>os_filters := os_filters s @ [(f, ope, v)]\<rparr>"
| "apply_Option s (SetOrder f d) = s\<lparr>os_order := Some (f, d)\<rparr>"
| "apply_Option s (SetLimit n) = s\<lparr>os_limit := Some n\<rparr>"
| "apply_Option s (SetOffset n) = s\<lparr>os_offset := Some n\<rparr>"
| "apply_Option s (SetSearch q) = s\<lparr>os_search := Some q\<rparr>"

text \<open>
  Modelled from the spec: the validation of the missing option layer, done once, at
  finalization. The limit must lie in [1, 50] and the offset must be at least 0.
\<close>

definition valid_OptionSet :: "OptionSet \<Rightarrow> bool" where
  "valid_OptionSet s =
     ((case os_limit s of None \<Rightarrow> True | Some n \<Rightarrow> 1 \<le> n \<and> n \<le> 50) \<and>
      (case os_offset s of None \<Rightarrow> True | Some n \<Rightarrow> 0 \<le> n))"

text \<open>
  Modelled from the spec: finalization of a list of directives (\<open>newOpt\<close> of the source,
  which is not among the source files): apply them in order, then validate; a violation
  gives the single out-of-range error.
\<close>

definition newOpt_spec :: "Option list \<Rightarrow> error + OptionSet" where
  "newOpt_spec opts =
     (let s = foldl apply_Option empty_OptionSet opts
      in if valid_OptionSet s then Inr s else Inl ErrOutOfRange)"

text \<open>
  Modelled from the spec: decoding into the \<open>{count: int}\<close> destination of the Count
  accessor, which is not among the source files. An object without the key leaves the
  count at zero, as decoding into a struct does.
\<close>

fun dec_count :: "json \<Rightarrow> int option" where
  "dec_count (JObject kvs) =
     (case map_of (rev kvs) ''count'' of
        None \<Rightarrow> Some 0
      | Some (JNumber n) \<Rightarrow> Some n
      | Some JNull \<Rightarrow> Some 0
      | Some _ \<Rightarrow> None)"
| "dec_count _ = None"

text \<open>
  Modelled from the spec: the Count accessor, of which the source files hold only the
  test. The options are finalized, the request is sent as \<open>get\<close> sends it, and the body
  is classified: a body that does not parse is the invalid-JSON condition, a bare empty
  array is \<open>ErrNoResults\<close>, a count object gives its count. The spec does not name the
  path segment of a count query; it is the argument \<open>seg\<close>. A parsed body of any other
  shape is reported as invalid JSON.
\<close>

definition Count ::
  "('o, 'v) deps \<Rightarrow> Client \<Rightarrow> endpoint \<Rightarrow> string \<Rightarrow> 'o list \<Rightarrow> net \<Rightarrow> (error + int) \<times> net" where
  "Count E c end' seg opts w =
     (case newOpt E opts of
        Inl err \<Rightarrow> (Inl err, w)
      | Inr opt \<Rightarrow>
          (case fetch E c (encodeURL (Values E opt) (rootURL c @ end' @ seg)) w of
             (Inl err, w') \<Rightarrow> (Inl err, w')
           | (Inr b, w') \<Rightarrow>
               (case json_parse E b of
                  None \<Rightarrow> (Inl ErrInvalidJSON, w')
                | Some j \<Rightarrow>
                    if j = JArray [] then (Inl ErrNoResults, w')
                    else (case dec_count j of
                            None \<Rightarrow> (Inl ErrInvalidJSON, w')
                          | Some n \<Rightarrow> (Inr n, w')))))"

section \<open>The test rig of pulse\_test.go\<close>

text \<open>
  The tests run the client against a local server that answers every request with a
  fixed status and body (\<open>testServerString\<close>). \<open>fixture_parse\<close> gives the JSON value of
  each body the tests use; any other text is treated as unparseable. \<open>page_query\<close> is a
  sample encoder that writes the page size, the page start and the search term as
  \<open>limit=n\<close>, \<open>offset=n\<close> and \<open>search=q\<close>, joined by \<open>&\<close>; the term is written as it
  is, which is what form encoding does to letters and digits.
\<close>

definition testServer :: "int \<Rightarrow> string \<Rightarrow> request \<Rightarrow> error + response" where
  "testServer st body req = Inr \<lparr>resp_status = st, resp_body = Inr body\<rparr>"

definition testClient :: "int \<Rightarrow> string \<Rightarrow> Client" where
  "testClient st body = \<lparr>http = testServer st body, rootURL = ''http://127.0.0.1/''\<rparr>"

definition fixture_parse :: "string \<Rightarrow> json option" where
  "fixture_parse b =
     (if b = ''[]'' then Some (JArray [])
      else if b = ''{\"count\": 100}'' then Some (JObject [(''count'', JNumber 100)])
      else if b = ''[\"logo.url\", \"background.id\"]''
        then Some (JArray [JString ''logo.url'', JString ''background.id''])
      else if b = ''[\"name\", \"slug\", \"url\"]''
        then Some (JArray [JString ''name'', JString ''slug'', JString ''url''])
      else None)"

definition page_query :: "OptionSet \<Rightarrow> Encoder" where
  "page_query s =
     Encoder (Join ((case os_limit s of None \<Rightarrow> [] | Some n \<Rightarrow> [''limit='' @ Itoa n]) @
                    (case os_offset s of None \<Rightarrow> [] | Some n \<Rightarrow> [''offset='' @ Itoa n]) @
                    (case os_search s of None \<Rightarrow> [] | Some q \<Rightarrow> [''search='' @ q])) ''&'')"

definition test_deps :: "(Option, OptionSet) deps" where
  "test_deps =
     \<lparr>newOpt = newOpt_spec, Values = page_query, optSearch = SetSearch,
      APIkey = ''key'',
      checkError = (\<lambda>r. if resp_status r = 200 then None else Some (StatusError (resp_status r))),
      NewRequest_fails = (\<lambda>u. False),
      json_parse = fixture_parse\<rparr>"

section \<open>Facts about the string helpers\<close>

lemma intsToStrings_loop_map: "intsToStrings_loop str ints = str @ map Itoa ints"
  by (induction ints arbitrary: str) simp_all

lemma intsToStrings_map: "intsToStrings ints = map Itoa ints"
  by (simp add: intsToStrings_def intsToStrings_loop_map)

lemma check_ids_None: "check_ids ids = None \<longleftrightarrow> (\<forall>i \<in> set ids. 0 \<le> i)"
  by (induction ids) auto

lemma check_ids_Some: "check_ids ids = Some e \<longleftrightarrow> e = ErrNegativeID \<and> (\<exists>i \<in> set ids. i < 0)"
  by (induction ids) auto

lemma remove_spaces_append: "remove_spaces (a @ b) = remove_spaces a @ remove_spaces b"
  by (simp add: remove_spaces_def)

lemma remove_spaces_id: "CHR '' '' \<notin> set s \<Longrightarrow> remove_spaces s = s"
  by (induction s) (auto simp: remove_spaces_def)

lemma space_notin_remove_spaces: "CHR '' '' \<notin> set (remove_spaces s)"
  by (simp add: remove_spaces_def)

lemma intsToCommaString_single: "intsToCommaString [i] = Itoa i"
  by (simp add: intsToCommaString_def intsToStrings_def)

lemma digit_cases: "d < 10 \<Longrightarrow> d \<in> {0, 1, 2, 3, 4, 5, 6, 7, 8, 9::nat}"
  by auto

lemma digit_val_digit_char: "d < 10 \<Longrightarrow> digit_val (digit_char d) = d"
  using digit_cases [of d] by (auto simp: digit_val_def digit_char_def)

lemma is_digit_digit_char: "d < 10 \<Longrightarrow> is_digit (digit_char d)"
  using digit_cases [of d] by (auto simp: is_digit_def digit_char_def)

lemma dec_value_snoc: "dec_value (s @ [ch]) = 10 * dec_value s + digit_val ch"
  by (simp add: dec_value_def)

lemma dec_value_dec_nat: "dec_value (dec_nat n) = n"
proof (induction n rule: dec_nat.induct)
  case (1 n)
  show ?case
  proof (cases "n < 10")
    case True
    then show ?thesis
      by (simp add: dec_nat.simps [of n] dec_value_def digit_val_digit_char)
  next
    case False
    with 1 have "dec_value (dec_nat (n div 10)) = n div 10" by simp
    with False show ?thesis
      by (simp add: dec_nat.simps [of n] dec_value_snoc digit_val_digit_char)
  qed
qed

lemma dec_nat_digits: "ch \<in> set (dec_nat n) \<Longrightarrow> is_digit ch"
proof (induction n rule: dec_nat.induct)
  case (1 n)
  then show ?case
    by (cases "n < 10") (auto simp: dec_nat.simps [of n] is_digit_digit_char)
qed

lemma dec_nat_nonempty: "dec_nat n \<noteq> []"
  by (simp add: dec_nat.simps [of n])

lemma is_digit_not_comma: "is_digit ch \<Longrightarrow> ch \<noteq> CHR '','' \<and> ch \<noteq> CHR '' ''"
  by (auto simp: is_digit_def)

lemma Itoa_nonneg: "0 \<le> i \<Longrightarrow> Itoa i = dec_nat (nat i)"
  by (simp add: Itoa_def)

lemma Itoa_value: "0 \<le> i \<Longrightarrow> int (dec_value (Itoa i)) = i"
  by (simp add: Itoa_nonneg dec_value_dec_nat)

lemma Itoa_digits: "0 \<le> i \<Longrightarrow> ch \<in> set (Itoa i) \<Longrightarrow> is_digit ch"
  by (simp add: Itoa_nonneg dec_nat_digits)

lemma split_on_no_sep: "sep \<notin> set s \<Longrightarrow> split_on sep s = [s]"
  by (induction s) auto

lemma split_on_append: "sep \<notin> set s \<Longrightarrow> split_on sep (s @ sep # t) = s # split_on sep t"
  by (induction s) auto

lemma split_on_Join:
  "ss \<noteq> [] \<Longrightarrow> \<forall>s \<in> set ss. CHR '','' \<notin> set s \<Longrightarrow> split_on CHR '','' (Join ss '','') = ss"
proof (induction ss "'',''" rule: Join.induct)
  case 1
  then show ?case by simp
next
  case (2 s)
  then show ?case by (simp add: split_on_no_sep)
next
  case (3 s t ss)
  then show ?case by (simp add: split_on_append)
qed

lemma set_Join: "set (Join ss sep) \<subseteq> \<Union> (set ` set ss) \<union> set sep"
  by (induction ss sep rule: Join.induct) auto

lemma ids_roundtrip:
  assumes "ids \<noteq> []" and "\<forall>i \<in> set ids. 0 \<le> i"
  shows "map (\<lambda>s. int (dec_value s)) (split_on CHR '','' (intsToCommaString ids)) = ids"
proof -
  have "\<forall>s \<in> set (map Itoa ids). CHR '','' \<notin> set s"
    using assms(2) Itoa_digits is_digit_not_comma by fastforce
  with assms(1) have "split_on CHR '','' (intsToCommaString ids) = map Itoa ids"
    by (simp add: intsToCommaString_def intsToStrings_map split_on_Join)
  moreover have "map (\<lambda>s. int (dec_value s)) (map Itoa ids) = ids"
    using assms(2) by (induction ids) (simp_all add: Itoa_value)
  ultimately show ?thesis by simp
qed

lemma no_space_commastring:
  assumes "\<forall>i \<in> set ids. 0 \<le> i"
  shows "CHR '' '' \<notin> set (intsToCommaString ids)"
proof
  assume "CHR '' '' \<in> set (intsToCommaString ids)"
  then have "CHR '' '' \<in> \<Union> (set ` set (map Itoa ids)) \<union> set '',''"
    using set_Join [of "map Itoa ids" "'',''"]
    by (auto simp: intsToCommaString_def intsToStrings_map)
  then obtain i where "i \<in> set ids" "CHR '' '' \<in> set (Itoa i)" by auto
  with assms show False using Itoa_digits is_digit_not_comma by blast
qed

section \<open>Facts about transport and options\<close>

lemma fetch_ok:
  assumes "\<not> NewRequest_fails E u" and "http c (new_request E u) = Inr resp"
    and "checkError E resp = None" and "resp_body resp = Inr b"
  shows "fetch E c u w = (Inr b, w @ [new_request E u])"
  using assms by (simp add: fetch_def Let_def)

lemma get_ok:
  assumes "\<not> NewRequest_fails E u" and "http c (new_request E u) = Inr resp"
    and "checkError E resp = None" and "resp_body resp = Inr b"
    and "json_parse E b = Some j" and "dest j = Some v"
  shows "get E c dest u w = (Inr v, w @ [new_request E u])"
  using assms by (simp add: get_def fetch_ok Unmarshal_def)

lemma foldl_keeps_limit:
  "\<forall>x \<in> set post. \<forall>m. x \<noteq> SetLimit m \<Longrightarrow>
     os_limit (foldl apply_Option s post) = os_limit s"
proof (induction post arbitrary: s)
  case Nil
  then show ?case by simp
next
  case (Cons x post)
  then show ?case by (cases x) simp_all
qed

lemma foldl_keeps_offset:
  "\<forall>x \<in> set post. \<forall>m. x \<noteq> SetOffset m \<Longrightarrow>
     os_offset (foldl apply_Option s post) = os_offset s"
proof (induction post arbitrary: s)
  case Nil
  then show ?case by simp
next
  case (Cons x post)
  then show ?case by (cases x) simp_all
qed

lemma last_limit_wins:
  "\<forall>x \<in> set post. \<forall>m. x \<noteq> SetLimit m \<Longrightarrow>
     os_limit (foldl apply_Option s (pre @ SetLimit n # post)) = Some n"
  by (simp add: foldl_keeps_limit)

lemma last_offset_wins:
  "\<forall>x \<in> set post. \<forall>m. x \<noteq> SetOffset m \<Longrightarrow>
     os_offset (foldl apply_Option s (pre @ SetOffset n # post)) = Some n"
  by (simp add: foldl_keeps_offset)

lemma newOpt_spec_bad_limit:
  assumes "n \<le> 0 \<or> 50 < n" and "\<forall>x \<in> set post. \<forall>m. x \<noteq> SetLimit m"
  shows "newOpt_spec (pre @ SetLimit n # post) = Inl ErrOutOfRange"
  using assms last_limit_wins [of post empty_OptionSet pre n]
  by (auto simp: newOpt_spec_def Let_def valid_OptionSet_def)

lemma newOpt_spec_bad_offset:
  assumes "n < 0" and "\<forall>x \<in> set post. \<forall>m. x \<noteq> SetOffset m"
  shows "newOpt_spec (pre @ SetOffset n # post) = Inl ErrOutOfRange"
  using assms last_offset_wins [of post empty_OptionSet pre n]
  by (auto simp: newOpt_spec_def Let_def valid_OptionSet_def)

lemma GetGame_option_error:
  "0 \<le> ident \<Longrightarrow> newOpt E opts = Inl err \<Longrightarrow> GetGame E c dec ident opts w = (Returns (Inl err), w)"
  by (simp add: GetGame_def singleURL_def)

lemma GetGames_option_error:
  "\<forall>i \<in> set ids. 0 \<le> i \<Longrightarrow> newOpt E opts = Inl err \<Longrightarrow> GetGames E c dec ids opts w = (Inl err, w)"
proof -
  assume "\<forall>i \<in> set ids. 0 \<le> i" and e: "newOpt E opts = Inl err"
  then have "check_ids ids = None" by (simp add: check_ids_None)
  with e show ?thesis by (simp add: GetGames_def multiURL_def)
qed

lemma test_deps_newOpt: "newOpt test_deps = newOpt_spec"
  by (simp add: test_deps_def)

lemma newOpt_spec_offset_99999: "newOpt_spec [SetOffset (- 99999)] = Inl ErrOutOfRange"
  by (simp add: newOpt_spec_def valid_OptionSet_def empty_OptionSet_def)

lemma remove_spaces_Itoa: "0 \<le> i \<Longrightarrow> remove_spaces (Itoa i) = Itoa i"
  using Itoa_digits is_digit_not_comma by (intro remove_spaces_id) blast

lemma remove_spaces_commastring:
  "\<forall>i \<in> set ids. 0 \<le> i \<Longrightarrow> remove_spaces (intsToCommaString ids) = intsToCommaString ids"
  by (simp add: remove_spaces_id no_space_commastring)

lemma commastring_chars:
  assumes "\<forall>i \<in> set ids. 0 \<le> i" and "ch \<in> set (intsToCommaString ids)"
  shows "is_digit ch \<or> ch = CHR '',''"
proof -
  from assms(2) have "ch \<in> \<Union> (set ` set (map Itoa ids)) \<union> set '',''"
    using set_Join [of "map Itoa ids" "'',''"]
    by (auto simp: intsToCommaString_def intsToStrings_map)
  with assms(1) show ?thesis using Itoa_digits by auto
qed

lemma Itoa_296570: "Itoa 296570 = ''296570''"
  by (simp add: Itoa_def dec_nat.simps digit_char_def)

lemma Itoa_714772: "Itoa 714772 = ''714772''"
  by (simp add: Itoa_def dec_nat.simps digit_char_def)

lemma Itoa_124499: "Itoa 124499 = ''124499''"
  by (simp add: Itoa_def dec_nat.simps digit_char_def)

lemma Itoa_296456: "Itoa 296456 = ''296456''"
  by (simp add: Itoa_def dec_nat.simps digit_char_def)

lemma newOpt_spec_limit_5: "newOpt_spec [SetLimit 5] = Inr (empty_OptionSet\<lparr>os_limit := Some 5\<rparr>)"
  by (simp add: newOpt_spec_def valid_OptionSet_def empty_OptionSet_def)

lemma page_query_limit_5: "Encode (page_query (empty_OptionSet\<lparr>os_limit := Some 5\<rparr>)) = ''limit=5''"
  by (simp add: page_query_def empty_OptionSet_def Itoa_def dec_nat.simps digit_char_def)

lemma newOpt_spec_Nil: "newOpt_spec [] = Inr empty_OptionSet"
  by (simp add: newOpt_spec_def valid_OptionSet_def empty_OptionSet_def)

lemma page_query_empty: "Encode (page_query empty_OptionSet) = []"
  by (simp add: page_query_def empty_OptionSet_def)

lemma test_fetch:
  "fetch test_deps (testClient 200 b) u w = (Inr b, w @ [new_request test_deps u])"
  by (simp add: fetch_def test_deps_def testClient_def testServer_def Let_def)

lemma test_rootURL: "rootURL (testClient st b) = ''http://127.0.0.1/''"
  by (simp add: testClient_def)

lemma test_json_parse: "json_parse test_deps = fixture_parse"
  by (simp add: test_deps_def)

lemma test_Values: "Values test_deps = page_query"
  by (simp add: test_deps_def)

lemma fixture_parse_empty_array: "fixture_parse ''[]'' = Some (JArray [])"
  by (simp add: fixture_parse_def)

lemma fixture_parse_empty: "fixture_parse [] = None"
  by (simp add: fixture_parse_def)

lemma fixture_parse_count: "fixture_parse ''{\"count\": 100}'' = Some (JObject [(''count'', JNumber 100)])"
  by (simp add: fixture_parse_def)

lemma fixture_parse_dot:
  "fixture_parse ''[\"logo.url\", \"background.id\"]'' =
     Some (JArray [JString ''logo.url'', JString ''background.id''])"
  by (simp add: fixture_parse_def)

lemma dec_slice_strings: "dec_slice dec_string (JArray (map JString names)) = Some names"
  by (induction names) simp_all

lemma Itoa_0: "Itoa 0 = ''0''"
  by (simp add: Itoa_def dec_nat.simps digit_char_def)

lemma Itoa_9999999: "Itoa 9999999 = ''9999999''"
  by (simp add: Itoa_def dec_nat.simps digit_char_def)

lemma test_singleURL_0: "singleURL test_deps (testClient st b) GameEndpoint 0 [] = Inr ''http://127.0.0.1/games/0''"
  by (simp add: singleURL_def test_deps_newOpt newOpt_spec_Nil test_Values page_query_empty
      encodeURL_def test_rootURL GameEndpoint_def Itoa_0 remove_spaces_def)

lemma test_multiURL_two:
  "multiURL test_deps (testClient st b) GameEndpoint [0, 9999999] [] =
     Inr ''http://127.0.0.1/games/0,9999999''"
  by (simp add: multiURL_def test_deps_newOpt newOpt_spec_Nil test_Values page_query_empty
      encodeURL_def test_rootURL GameEndpoint_def Itoa_0 Itoa_9999999 remove_spaces_def
      intsToCommaString_def intsToStrings_def)

lemma test_multiURL_Nil:
  "multiURL test_deps (testClient st b) GameEndpoint [] [] = Inr ''http://127.0.0.1/games/''"
  by (simp add: multiURL_def test_deps_newOpt newOpt_spec_Nil test_Values page_query_empty
      encodeURL_def test_rootURL GameEndpoint_def remove_spaces_def
      intsToCommaString_def intsToStrings_def)

lemma test_get_empty_array:
  "get test_deps (testClient 200 ''[]'') (dec_slice dec) u w = (Inr [], w @ [new_request test_deps u])"
  by (simp add: get_def test_fetch test_json_parse fixture_parse_empty_array Unmarshal_def)

lemma get_empty_array:
  assumes "\<not> NewRequest_fails E u" and "http c (new_request E u) = Inr resp"
    and "checkError E resp = None" and "resp_body resp = Inr b"
    and "json_parse E b = Some (JArray [])"
  shows "get E c (dec_slice dec) u w = (Inr [], w @ [new_request E u])"
  using assms by (intro get_ok) auto

lemma GetGame_panics_on_empty_array:
  assumes "singleURL E c GameEndpoint ident opts = Inr u"
    and "\<not> NewRequest_fails E u" and "http c (new_request E u) = Inr resp"
    and "checkError E resp = None" and "resp_body resp = Inr b"
    and "json_parse E b = Some (JArray [])"
  shows "GetGame E c dec ident opts w = (Panics, w @ [new_request E u])"
  using assms(1) get_empty_array [OF assms(2-6), of dec w] by (simp add: GetGame_def)

lemma GetGames_empty_array_no_error:
  assumes "multiURL E c GameEndpoint ids opts = Inr u"
    and "\<not> NewRequest_fails E u" and "http c (new_request E u) = Inr resp"
    and "checkError E resp = None" and "resp_body resp = Inr b"
    and "json_parse E b = Some (JArray [])"
  shows "GetGames E c dec ids opts w = (Inr [], w @ [new_request E u])"
  using assms(1) get_empty_array [OF assms(2-6), of dec w] by (simp add: GetGames_def)

lemma newOpt_spec_search: "newOpt_spec [SetSearch q] = Inr (empty_OptionSet\<lparr>os_search := Some q\<rparr>)"
  by (simp add: newOpt_spec_def valid_OptionSet_def empty_OptionSet_def)

lemma test_searchURL_zelda:
  "searchURL test_deps (testClient st b) GameEndpoint ''zelda'' [] =
     Inr ''http://127.0.0.1/games/?search=zelda''"
  by (simp add: searchURL_def test_deps_def newOpt_spec_search page_query_def empty_OptionSet_def
      encodeURL_def testClient_def GameEndpoint_def remove_spaces_def)

lemma test_singleURL_feed_0:
  "singleURL test_deps (testClient st b) FeedEndpoint 0 [] = Inr ''http://127.0.0.1/feeds/0''"
  by (simp add: singleURL_def test_deps_newOpt newOpt_spec_Nil test_Values page_query_empty
      encodeURL_def test_rootURL FeedEndpoint_def Itoa_0 remove_spaces_def)

lemma test_get_empty_body:
  "get test_deps (testClient 200 []) (dec_slice dec) u w = (Inl UnmarshalError, w @ [new_request test_deps u])"
  by (simp add: get_def test_fetch test_json_parse fixture_parse_empty Unmarshal_def)

section \<open>URL construction\<close>

text \<open>
  C9. The multi-entity URL of a one-element id list is the single-entity URL of that id,
  for every endpoint, id and option list, in the URL returned and in the error returned.
  This holds for every id, the negative ones included (both builders return
  \<open>ErrNegativeID\<close>).
\<close>

theorem multiURL_singleton_eq_singleURL:
  "multiURL E c end' [ident] opts = singleURL E c end' ident opts"
  by (simp add: multiURL_def singleURL_def intsToCommaString_single split: sum.splits)

text \<open>
  C10. The id checks come before the options are finalized: a negative id gives
  \<open>ErrNegativeID\<close> from the single-entity builder, and a list holding a negative id gives
  \<open>ErrNegativeID\<close> from the multi-entity builder, whatever \<open>newOpt\<close> would answer for the
  option list (an error included).
\<close>

theorem negative_id_checked_before_options:
  "(ident < 0 \<longrightarrow> singleURL E c end' ident opts = Inl ErrNegativeID) \<and>
   ((\<exists>i \<in> set ids. i < 0) \<longrightarrow> multiURL E c end' ids opts = Inl ErrNegativeID)"
proof -
  have "multiURL E c end' ids opts = Inl ErrNegativeID" if "\<exists>i \<in> set ids. i < 0"
  proof -
    from that have "check_ids ids = Some ErrNegativeID" by (simp add: check_ids_Some)
    then show ?thesis by (simp add: multiURL_def)
  qed
  then show ?thesis by (simp add: singleURL_def)
qed

text \<open>
  The offset \<open>-99999\<close> of the tests does not finalize, and the negative id still decides
  the error.
\<close>

theorem negative_id_checked_before_options_witness:
  "newOpt test_deps [SetOffset (- 99999)] = Inl ErrOutOfRange \<and>
   singleURL test_deps (testClient 200 []) PulseEndpoint (- 1) [SetOffset (- 99999)] = Inl ErrNegativeID \<and>
   multiURL test_deps (testClient 200 []) PulseEndpoint [7, - 500] [SetOffset (- 99999)] = Inl ErrNegativeID"
  using negative_id_checked_before_options
          [of "- 1" test_deps "testClient 200 []" PulseEndpoint "[SetOffset (- 99999)]" "[7, - 500]"]
  by (simp add: test_deps_newOpt newOpt_spec_offset_99999)

text \<open>
  C6, as stated, fails for an encoder whose output holds a space: \<open>encodeURL\<close> strips the
  spaces of its URL argument before it appends the encoded string, and the encoded string
  is appended as it is.
\<close>

theorem encodeURL_keeps_encoder_spaces_counterexample:
  "encodeURL (Encoder ''search=mass effect'') ''http://127.0.0.1/games/'' =
     ''http://127.0.0.1/games/?search=mass effect'' \<and>
   CHR '' '' \<in> set (encodeURL (Encoder ''search=mass effect'') ''http://127.0.0.1/games/'')"
  by (simp add: encodeURL_def remove_spaces_def)

text \<open>
  C6, amended. \<open>encodeURL\<close> returns its URL argument with every space removed, followed
  by \<open>?\<close> and the encoded string exactly when that string is non-empty. With an empty
  encoded string the result is the URL argument without its spaces. The result is free of
  spaces whenever the encoded string is.
\<close>

theorem encodeURL_strips_input_url:
  "encodeURL enc u = remove_spaces u @ (if Encode enc = [] then [] else ''?'' @ Encode enc) \<and>
   CHR '' '' \<notin> set (remove_spaces u) \<and>
   (Encode enc = [] \<longrightarrow> encodeURL enc u = remove_spaces u) \<and>
   (CHR '' '' \<notin> set (Encode enc) \<longrightarrow> CHR '' '' \<notin> set (encodeURL enc u))"
  by (simp add: encodeURL_def Let_def space_notin_remove_spaces)

theorem encodeURL_strips_input_url_witness:
  "encodeURL (Encoder []) ''a b/ 1'' = ''ab/1'' \<and>
   encodeURL (Encoder ''limit=5'') ''a b/ 1'' = ''ab/1?limit=5'' \<and>
   CHR '' '' \<notin> set (encodeURL (Encoder ''limit=5'') ''a b/ 1'')"
  using encodeURL_strips_input_url [of "Encoder []" "''a b/ 1''"]
        encodeURL_strips_input_url [of "Encoder ''limit=5''" "''a b/ 1''"]
  by (simp add: remove_spaces_def)

text \<open>
  C4. For a non-empty list of non-negative ids and options that finalize, the
  multi-entity URL is the root URL, the endpoint path and the decimal numerals of the ids
  joined by commas in list order, followed by the query part. Cutting the joined string at
  its commas and reading each piece as a decimal numeral gives the id list back, and the
  joined string holds digits and commas only. A list holding a negative id gives
  \<open>ErrNegativeID\<close>. The root URL and the endpoint path are taken free of spaces, as the
  constant \<open>igdbURL\<close> and every endpoint constant are.
\<close>

theorem multiURL_comma_joined_ids:
  "(ids \<noteq> [] \<and> (\<forall>i \<in> set ids. 0 \<le> i) \<and> newOpt E opts = Inr opt \<and>
    CHR '' '' \<notin> set (rootURL c) \<and> CHR '' '' \<notin> set end' \<longrightarrow>
      multiURL E c end' ids opts =
        Inr (rootURL c @ end' @ Join (map Itoa ids) '','' @
             (if Encode (Values E opt) = [] then [] else ''?'' @ Encode (Values E opt))) \<and>
      map (\<lambda>s. int (dec_value s)) (split_on CHR '','' (Join (map Itoa ids) '','')) = ids \<and>
      (\<forall>ch \<in> set (Join (map Itoa ids) '',''). is_digit ch \<or> ch = CHR '','')) \<and>
   ((\<exists>i \<in> set ids. i < 0) \<longrightarrow> multiURL E c end' ids opts = Inl ErrNegativeID)"
proof (intro conjI impI)
  assume a: "ids \<noteq> [] \<and> (\<forall>i \<in> set ids. 0 \<le> i) \<and> newOpt E opts = Inr opt \<and>
    CHR '' '' \<notin> set (rootURL c) \<and> CHR '' '' \<notin> set end'"
  then have nonneg: "\<forall>i \<in> set ids. 0 \<le> i" by simp
  then have chk: "check_ids ids = None" by (simp add: check_ids_None)
  have join: "Join (map Itoa ids) '','' = intsToCommaString ids"
    by (simp add: intsToCommaString_def intsToStrings_map)
  have "remove_spaces (rootURL c @ end' @ intsToCommaString ids) =
          rootURL c @ end' @ intsToCommaString ids"
    using a nonneg by (simp add: remove_spaces_append remove_spaces_id remove_spaces_commastring)
  with a chk show "multiURL E c end' ids opts =
        Inr (rootURL c @ end' @ Join (map Itoa ids) '','' @
             (if Encode (Values E opt) = [] then [] else ''?'' @ Encode (Values E opt)))"
    by (simp add: multiURL_def encodeURL_def Let_def join)
  from a show "map (\<lambda>s. int (dec_value s)) (split_on CHR '','' (Join (map Itoa ids) '','')) = ids"
    using ids_roundtrip [of ids] by (simp add: join)
  from nonneg show "\<forall>ch \<in> set (Join (map Itoa ids) '',''). is_digit ch \<or> ch = CHR '',''"
    using commastring_chars [of ids] by (simp add: join)
next
  assume "\<exists>i \<in> set ids. i < 0"
  then have "check_ids ids = Some ErrNegativeID" by (simp add: check_ids_Some)
  then show "multiURL E c end' ids opts = Inl ErrNegativeID" by (simp add: multiURL_def)
qed

theorem multiURL_comma_joined_ids_witness:
  "newOpt test_deps [SetLimit 5] = Inr (empty_OptionSet\<lparr>os_limit := Some 5\<rparr>) \<and>
   multiURL test_deps (NewClient (testServer 200 [])) GameEndpoint [296570, 714772, 124499] [SetLimit 5] =
     Inr ''https://api-2445582011268.apicast.io/games/296570,714772,124499?limit=5'' \<and>
   multiURL test_deps (NewClient (testServer 200 [])) GameEndpoint [296570, - 500] [SetLimit 5] = Inl ErrNegativeID"
  using multiURL_comma_joined_ids
          [of "[296570, 714772, 124499]" test_deps "[SetLimit 5]"
              "empty_OptionSet\<lparr>os_limit := Some 5\<rparr>" "NewClient (testServer 200 [])" GameEndpoint]
        multiURL_comma_joined_ids
          [of "[296570, - 500]" test_deps "[SetLimit 5]"
              "empty_OptionSet\<lparr>os_limit := Some 5\<rparr>" "NewClient (testServer 200 [])" GameEndpoint]
  by (simp add: test_deps_def newOpt_spec_limit_5 page_query_limit_5 NewClient_def igdbURL_def
        GameEndpoint_def Itoa_296570 Itoa_714772 Itoa_124499)

section \<open>Accessors\<close>

lemma snd_fetch:
  "\<not> NewRequest_fails E u \<Longrightarrow> snd (fetch E c u w) = w @ [new_request E u]"
  by (simp add: fetch_def Let_def split: sum.splits option.splits)

lemma snd_get:
  "\<not> NewRequest_fails E u \<Longrightarrow> snd (get E c dest u w) = w @ [new_request E u]"
  using snd_fetch [of E u c w]
  by (cases "fetch E c u w") (simp add: get_def split: sum.splits)

lemma singleURL_nonneg:
  "0 \<le> ident \<Longrightarrow> newOpt E opts = Inr opt \<Longrightarrow>
     singleURL E c end' ident opts =
       Inr (remove_spaces (rootURL c @ end') @ Itoa ident @
            (if Encode (Values E opt) = [] then [] else ''?'' @ Encode (Values E opt)))"
  by (simp add: singleURL_def encodeURL_def Let_def remove_spaces_append remove_spaces_Itoa)

lemma test_NewRequest_fails: "\<not> NewRequest_fails test_deps u"
  by (simp add: test_deps_def)

text \<open>
  C2. With a negative id \<open>GetGame\<close> returns \<open>ErrNegativeID\<close> and the list of requests
  handed to the http client is unchanged, for every option list. With a non-negative id
  the single-entity builder goes on to finalize the options and, when they finalize,
  returns the URL ending in the decimal id and the query part; \<open>GetGame\<close> then is what
  \<open>get\<close> on that URL gives (an error of the transport, the first decoded element, or the
  panic on an empty slice), and whenever the request can be built it has been handed to
  the http client.
\<close>

theorem GetGame_negative_id_no_request:
  "(ident < 0 \<longrightarrow> GetGame E c dec ident opts w = (Returns (Inl ErrNegativeID), w)) \<and>
   (0 \<le> ident \<longrightarrow>
      singleURL E c end' ident opts =
        (case newOpt E opts of
           Inl err \<Rightarrow> Inl err
         | Inr opt \<Rightarrow>
             Inr (remove_spaces (rootURL c @ end') @ Itoa ident @
                  (if Encode (Values E opt) = [] then [] else ''?'' @ Encode (Values E opt))))) \<and>
   (0 \<le> ident \<and> newOpt E opts = Inr opt \<longrightarrow>
      GetGame E c dec ident opts w =
        (case get E c (dec_slice dec)
                (remove_spaces (rootURL c @ GameEndpoint) @ Itoa ident @
                 (if Encode (Values E opt) = [] then [] else ''?'' @ Encode (Values E opt))) w of
           (Inl err, w') \<Rightarrow> (Returns (Inl err), w')
         | (Inr g, w') \<Rightarrow>
             (case g of [] \<Rightarrow> (Panics, w') | g0 # _ \<Rightarrow> (Returns (Inr g0), w')))) \<and>
   (0 \<le> ident \<and> newOpt E opts = Inr opt \<and>
    \<not> NewRequest_fails E
        (remove_spaces (rootURL c @ GameEndpoint) @ Itoa ident @
         (if Encode (Values E opt) = [] then [] else ''?'' @ Encode (Values E opt))) \<longrightarrow>
      snd (GetGame E c dec ident opts w) =
        w @ [new_request E
               (remove_spaces (rootURL c @ GameEndpoint) @ Itoa ident @
                (if Encode (Values E opt) = [] then [] else ''?'' @ Encode (Values E opt)))])"
proof (intro conjI impI)
  assume "ident < 0"
  then show "GetGame E c dec ident opts w = (Returns (Inl ErrNegativeID), w)"
    by (simp add: GetGame_def singleURL_def)
next
  assume "0 \<le> ident"
  then show "singleURL E c end' ident opts =
        (case newOpt E opts of
           Inl err \<Rightarrow> Inl err
         | Inr opt \<Rightarrow>
             Inr (remove_spaces (rootURL c @ end') @ Itoa ident @
                  (if Encode (Values E opt) = [] then [] else ''?'' @ Encode (Values E opt))))"
    by (simp add: singleURL_def encodeURL_def Let_def remove_spaces_append remove_spaces_Itoa
          split: sum.splits)
next
  let ?u = "remove_spaces (rootURL c @ GameEndpoint) @ Itoa ident @
            (if Encode (Values E opt) = [] then [] else ''?'' @ Encode (Values E opt))"
  assume a: "0 \<le> ident \<and> newOpt E opts = Inr opt"
  then have "singleURL E c GameEndpoint ident opts = Inr ?u"
    by (simp add: singleURL_nonneg)
  then show "GetGame E c dec ident opts w =
        (case get E c (dec_slice dec) ?u w of
           (Inl err, w') \<Rightarrow> (Returns (Inl err), w')
         | (Inr g, w') \<Rightarrow>
             (case g of [] \<Rightarrow> (Panics, w') | g0 # _ \<Rightarrow> (Returns (Inr g0), w')))"
    by (simp add: GetGame_def)
next
  let ?u = "remove_spaces (rootURL c @ GameEndpoint) @ Itoa ident @
            (if Encode (Values E opt) = [] then [] else ''?'' @ Encode (Values E opt))"
  assume a: "0 \<le> ident \<and> newOpt E opts = Inr opt \<and> \<not> NewRequest_fails E ?u"
  then have u: "singleURL E c GameEndpoint ident opts = Inr ?u"
    by (simp add: singleURL_nonneg)
  from a have s: "snd (get E c (dec_slice dec) ?u w) = w @ [new_request E ?u]"
    by (simp add: snd_get)
  obtain r w' where g: "get E c (dec_slice dec) ?u w = (r, w')"
    by (cases "get E c (dec_slice dec) ?u w")
  with s have "w' = w @ [new_request E ?u]" by simp
  with u g show "snd (GetGame E c dec ident opts w) = w @ [new_request E ?u]"
    by (simp add: GetGame_def split: sum.splits list.splits)
qed

text \<open>
  Id \<open>-1\<close> sends nothing; id 296456 against the empty body of the tests sends the request
  and returns the unmarshalling error.
\<close>

theorem GetGame_negative_id_no_request_witness:
  "GetGame test_deps (testClient 200 []) Some (- 1) [] [] = (Returns (Inl ErrNegativeID), []) \<and>
   singleURL test_deps (testClient 200 []) PulseEndpoint 296456 [] =
     Inr ''http://127.0.0.1/pulses/296456'' \<and>
   newOpt test_deps [] = Inr empty_OptionSet \<and>
   GetGame test_deps (testClient 200 []) Some 296456 [] [] =
     (Returns (Inl UnmarshalError), [new_request test_deps ''http://127.0.0.1/games/296456'']) \<and>
   snd (GetGame test_deps (testClient 200 []) Some 296456 [] []) =
     [new_request test_deps ''http://127.0.0.1/games/296456'']"
  using GetGame_negative_id_no_request
          [of "- 1" test_deps "testClient 200 []" Some "[]" "[]" PulseEndpoint empty_OptionSet]
        GetGame_negative_id_no_request
          [of 296456 test_deps "testClient 200 []" Some "[]" "[]" PulseEndpoint empty_OptionSet]
  by (simp add: test_deps_newOpt newOpt_spec_Nil test_Values page_query_empty test_rootURL
        PulseEndpoint_def GameEndpoint_def remove_spaces_def Itoa_296456 test_get_empty_body
        test_NewRequest_fails)

text \<open>
  C5. Against the option model of the spec: a limit directive with \<open>n \<le> 0\<close> or
  \<open>n > 50\<close> that is the last limit directive of the list makes finalization fail with
  \<open>ErrOutOfRange\<close>, and \<open>GetGame\<close> and \<open>GetGames\<close> then return that error without a
  request; a limit in [1, 50] finalizes. The same holds for a negative offset, and an
  offset of at least 0 finalizes.
\<close>

theorem limit_offset_validated_at_finalization:
  assumes "newOpt E = newOpt_spec"
  shows
  "((n \<le> 0 \<or> 50 < n) \<and> (\<forall>x \<in> set post. \<forall>m. x \<noteq> SetLimit m) \<longrightarrow>
      newOpt_spec (pre @ SetLimit n # post) = Inl ErrOutOfRange \<and>
      (0 \<le> ident \<longrightarrow>
         GetGame E c dec ident (pre @ SetLimit n # post) w = (Returns (Inl ErrOutOfRange), w)) \<and>
      ((\<forall>i \<in> set ids. 0 \<le> i) \<longrightarrow>
         GetGames E c dec ids (pre @ SetLimit n # post) w = (Inl ErrOutOfRange, w))) \<and>
   (1 \<le> n \<and> n \<le> 50 \<longrightarrow>
      newOpt_spec [SetLimit n] = Inr (empty_OptionSet\<lparr>os_limit := Some n\<rparr>)) \<and>
   (k < 0 \<and> (\<forall>x \<in> set post'. \<forall>m. x \<noteq> SetOffset m) \<longrightarrow>
      newOpt_spec (pre' @ SetOffset k # post') = Inl ErrOutOfRange \<and>
      (0 \<le> ident \<longrightarrow>
         GetGame E c dec ident (pre' @ SetOffset k # post') w = (Returns (Inl ErrOutOfRange), w)) \<and>
      ((\<forall>i \<in> set ids. 0 \<le> i) \<longrightarrow>
         GetGames E c dec ids (pre' @ SetOffset k # post') w = (Inl ErrOutOfRange, w))) \<and>
   (0 \<le> k \<longrightarrow>
      newOpt_spec [SetOffset k] = Inr (empty_OptionSet\<lparr>os_offset := Some k\<rparr>))"
proof (intro conjI impI)
  assume a: "(n \<le> 0 \<or> 50 < n) \<and> (\<forall>x \<in> set post. \<forall>m. x \<noteq> SetLimit m)"
  then show bad: "newOpt_spec (pre @ SetLimit n # post) = Inl ErrOutOfRange"
    by (simp add: newOpt_spec_bad_limit)
  { assume "0 \<le> ident"
    with bad assms
    show "GetGame E c dec ident (pre @ SetLimit n # post) w = (Returns (Inl ErrOutOfRange), w)"
      by (simp add: GetGame_option_error) }
  { assume "\<forall>i \<in> set ids. 0 \<le> i"
    with bad assms
    show "GetGames E c dec ids (pre @ SetLimit n # post) w = (Inl ErrOutOfRange, w)"
      by (simp add: GetGames_option_error) }
next
  assume "1 \<le> n \<and> n \<le> 50"
  then show "newOpt_spec [SetLimit n] = Inr (empty_OptionSet\<lparr>os_limit := Some n\<rparr>)"
    by (simp add: newOpt_spec_def valid_OptionSet_def empty_OptionSet_def)
next
  assume a: "k < 0 \<and> (\<forall>x \<in> set post'. \<forall>m. x \<noteq> SetOffset m)"
  then show bad: "newOpt_spec (pre' @ SetOffset k # post') = Inl ErrOutOfRange"
    by (simp add: newOpt_spec_bad_offset)
  { assume "0 \<le> ident"
    with bad assms
    show "GetGame E c dec ident (pre' @ SetOffset k # post') w = (Returns (Inl ErrOutOfRange), w)"
      by (simp add: GetGame_option_error) }
  { assume "\<forall>i \<in> set ids. 0 \<le> i"
    with bad assms
    show "GetGames E c dec ids (pre' @ SetOffset k # post') w = (Inl ErrOutOfRange, w)"
      by (simp add: GetGames_option_error) }
next
  assume "0 \<le> k"
  then show "newOpt_spec [SetOffset k] = Inr (empty_OptionSet\<lparr>os_offset := Some k\<rparr>)"
    by (simp add: newOpt_spec_def valid_OptionSet_def empty_OptionSet_def)
qed

theorem limit_offset_validated_at_finalization_witness:
  "newOpt test_deps = newOpt_spec \<and>
   newOpt_spec [SetLimit 0] = Inl ErrOutOfRange \<and>
   newOpt_spec [SetFields [''name''], SetLimit 51] = Inl ErrOutOfRange \<and>
   GetGame test_deps (testClient 200 []) Some 296456 [SetLimit (- 100)] [] =
     (Returns (Inl ErrOutOfRange), []) \<and>
   GetGames test_deps (testClient 200 []) Some [296570, 714772] [SetFields [''name''], SetLimit 51] [] =
     (Inl ErrOutOfRange, []) \<and>
   newOpt_spec [SetLimit 1] = Inr (empty_OptionSet\<lparr>os_limit := Some 1\<rparr>) \<and>
   newOpt_spec [SetLimit 50] = Inr (empty_OptionSet\<lparr>os_limit := Some 50\<rparr>) \<and>
   newOpt_spec [SetOffset (- 1)] = Inl ErrOutOfRange \<and>
   GetGame test_deps (testClient 200 []) Some 296456 [SetOffset (- 99999)] [] =
     (Returns (Inl ErrOutOfRange), []) \<and>
   newOpt_spec [SetOffset 0] = Inr (empty_OptionSet\<lparr>os_offset := Some 0\<rparr>)"
  using limit_offset_validated_at_finalization
          [OF test_deps_newOpt, of 51 "[]" "[SetFields [''name'']]" 296456 "testClient 200 []" Some "[]"
              "[296570, 714772]" "- 99999" "[]" "[]"]
        limit_offset_validated_at_finalization
          [OF test_deps_newOpt, of "- 100" "[]" "[]" 296456 "testClient 200 []" Some "[]" "[]" "- 1" "[]" "[]"]
        limit_offset_validated_at_finalization
          [OF test_deps_newOpt, of 0 "[]" "[]" 296456 "testClient 200 []" Some "[]" "[]" 0 "[]" "[]"]
        limit_offset_validated_at_finalization
          [OF test_deps_newOpt, of 1 "[]" "[]" 296456 "testClient 200 []" Some "[]" "[]" 0 "[]" "[]"]
        limit_offset_validated_at_finalization
          [OF test_deps_newOpt, of 50 "[]" "[]" 296456 "testClient 200 []" Some "[]" "[]" 0 "[]" "[]"]
  by (simp add: test_deps_newOpt)

text \<open>
  C7, as stated, fails: \<open>GetEndpointModel\<close> returns the decoded slice as it is. For the
  body \<open>["logo.url", "background.id"]\<close> of the tests the result is in the order of the
  body, which is not the lexical order.
\<close>

theorem GetEndpointModel_unsorted_counterexample:
  "GetEndpointModel test_deps (testClient 200 ''[\"logo.url\", \"background.id\"]'') PulseEndpoint [] =
     (Inr [''logo.url'', ''background.id''],
      [new_request test_deps ''http://127.0.0.1/pulses/meta'']) \<and>
   \<not> sorted [''logo.url'', ''background.id'']"
  by (simp add: GetEndpointModel_def get_def test_fetch test_rootURL test_json_parse
        Unmarshal_def fixture_parse_dot PulseEndpoint_def)

text \<open>
  C7, amended. The field introspection sends one GET to the endpoint path followed by
  \<open>meta\<close> and, when the body is a JSON array of strings, returns those strings in the
  order in which the body lists them.
\<close>

theorem GetEndpointModel_keeps_body_order:
  assumes "\<not> NewRequest_fails E (rootURL c @ end' @ ''meta'')"
    and "http c (new_request E (rootURL c @ end' @ ''meta'')) = Inr resp"
    and "checkError E resp = None"
    and "resp_body resp = Inr b"
    and "json_parse E b = Some (JArray (map JString names))"
  shows "GetEndpointModel E c end' w =
           (Inr names, w @ [new_request E (rootURL c @ end' @ ''meta'')])"
proof -
  have "dec_slice dec_string (JArray (map JString names)) = Some names"
    by (rule dec_slice_strings)
  with assms have "get E c (dec_slice dec_string) (rootURL c @ end' @ ''meta'') w =
      (Inr names, w @ [new_request E (rootURL c @ end' @ ''meta'')])"
    by (intro get_ok) auto
  then show ?thesis
    by (simp add: GetEndpointModel_def)
qed

theorem GetEndpointModel_keeps_body_order_witness:
  "GetEndpointModel test_deps (testClient 200 ''[\"name\", \"slug\", \"url\"]'') PulseEndpoint [] =
     (Inr [''name'', ''slug'', ''url''], [new_request test_deps ''http://127.0.0.1/pulses/meta''])"
  using GetEndpointModel_keeps_body_order
          [of test_deps "testClient 200 ''[\"name\", \"slug\", \"url\"]''" PulseEndpoint
              "\<lparr>resp_status = 200, resp_body = Inr ''[\"name\", \"slug\", \"url\"]''\<rparr>"
              "''[\"name\", \"slug\", \"url\"]''" "[''name'', ''slug'', ''url'']" "[]"]
  by (simp add: test_deps_def testClient_def testServer_def fixture_parse_def PulseEndpoint_def)

text \<open>
  C8. Against the Count accessor of the spec, for options that finalize and a request
  that is answered with a body: a body that parses as the bare empty array gives
  \<open>ErrNoResults\<close>, a body that parses as the object with the single member \<open>count\<close> of
  value \<open>n\<close> gives \<open>n\<close> without an error, and a body that does not parse (the empty body
  included) gives the invalid-JSON condition.
\<close>

theorem Count_classifies_body:
  assumes "newOpt E opts = Inr opt"
    and "fetch E c (encodeURL (Values E opt) (rootURL c @ end' @ seg)) w = (Inr b, w')"
  shows
  "(json_parse E b = Some (JArray []) \<longrightarrow> Count E c end' seg opts w = (Inl ErrNoResults, w')) \<and>
   (json_parse E b = Some (JObject [(''count'', JNumber n)]) \<longrightarrow>
      Count E c end' seg opts w = (Inr n, w')) \<and>
   (json_parse E b = None \<longrightarrow> Count E c end' seg opts w = (Inl ErrInvalidJSON, w'))"
  using assms by (simp add: Count_def)

theorem Count_classifies_body_witness:
  "Count test_deps (testClient 200 ''[]'') PulseEndpoint ''count'' [] [] =
     (Inl ErrNoResults, [new_request test_deps ''http://127.0.0.1/pulses/count'']) \<and>
   Count test_deps (testClient 200 ''{\"count\": 100}'') PulseEndpoint ''count'' [] [] =
     (Inr 100, [new_request test_deps ''http://127.0.0.1/pulses/count'']) \<and>
   Count test_deps (testClient 200 []) PulseEndpoint ''count'' [] [] =
     (Inl ErrInvalidJSON, [new_request test_deps ''http://127.0.0.1/pulses/count''])"
  using Count_classifies_body
          [of test_deps "[]" empty_OptionSet "testClient 200 ''[]''" PulseEndpoint "''count''" "[]"
              "''[]''" "[new_request test_deps ''http://127.0.0.1/pulses/count'']" 0]
        Count_classifies_body
          [of test_deps "[]" empty_OptionSet "testClient 200 ''{\"count\": 100}''" PulseEndpoint
              "''count''" "[]" "''{\"count\": 100}''"
              "[new_request test_deps ''http://127.0.0.1/pulses/count'']" 100]
        Count_classifies_body
          [of test_deps "[]" empty_OptionSet "testClient 200 []" PulseEndpoint "''count''" "[]"
              "[]" "[new_request test_deps ''http://127.0.0.1/pulses/count'']" 0]
  by (simp add: test_deps_newOpt newOpt_spec_Nil test_Values page_query_empty encodeURL_def
        test_rootURL test_fetch test_json_parse fixture_parse_empty_array fixture_parse_count
        fixture_parse_empty PulseEndpoint_def remove_spaces_def)

text \<open>
  C1. The source does not do what the tests ask for an empty array. With the body \<open>[]\<close>
  and id 0, \<open>GetGame\<close> sends its request, decodes a slice of length 0 and panics at
  \<open>g[0]\<close>, and so does \<open>GetFeed\<close>; with the ids 0 and 9999999, \<open>GetGames\<close> returns
  the empty slice and no error, and so does \<open>SearchGames\<close> for a query. None returns
  \<open>ErrNoResults\<close>. The two lemmas \<open>GetGame_panics_on_empty_array\<close> and
  \<open>GetGames_empty_array_no_error\<close> show the same for every id, option list and client.
\<close>

theorem GetGame_empty_array_panics:
  "GetGame test_deps (testClient 200 ''[]'') Some 0 [] [] =
     (Panics, [new_request test_deps ''http://127.0.0.1/games/0'']) \<and>
   GetGames test_deps (testClient 200 ''[]'') Some [0, 9999999] [] [] =
     (Inr [], [new_request test_deps ''http://127.0.0.1/games/0,9999999'']) \<and>
   SearchGames test_deps (testClient 200 ''[]'') Some ''zelda'' [] [] =
     (Inr [], [new_request test_deps ''http://127.0.0.1/games/?search=zelda'']) \<and>
   GetFeed test_deps (testClient 200 ''[]'') Some 0 [] [] =
     (Panics, [new_request test_deps ''http://127.0.0.1/feeds/0''])"
  by (simp add: GetGame_def GetGames_def SearchGames_def GetFeed_def test_singleURL_0
        test_multiURL_two test_searchURL_zelda test_singleURL_feed_0 test_get_empty_array)

text \<open>
  C3. The source does not reject an empty id list. \<open>GetGames\<close> with no ids builds the
  URL of the bare endpoint path and sends the request: with the empty body of the tests
  it returns the unmarshalling error, with the body \<open>[]\<close> the empty slice, and in both
  cases one request has been sent. It never returns \<open>ErrEmptyIDs\<close>.
\<close>

theorem GetGames_no_ids_sends_request:
  "GetGames test_deps (testClient 200 []) Some [] [] [] =
     (Inl UnmarshalError, [new_request test_deps ''http://127.0.0.1/games/'']) \<and>
   GetGames test_deps (testClient 200 ''[]'') Some [] [] [] =
     (Inr [], [new_request test_deps ''http://127.0.0.1/games/''])"
  by (simp add: GetGames_def test_multiURL_Nil test_get_empty_array test_get_empty_body)

end
